theory Spec2Isabelle
  imports Main
begin

section \<open>Data model (types.ts)\<close>

text \<open>
  JavaScript numbers are only copied by the code modelled here, never computed with, so
  they are integers in the model.
\<close>

type_synonym number = int

datatype OptimizationLevel = LEVEL_1 | LEVEL_2

record CodeMetrics =
  cyclomaticComplexity :: number
  linesOfCode :: number
  maintainabilityIndex :: number
  estimatedSpeedup :: string

datatype ChangeType = improvement | removal | replacement

text \<open>An entry of \<open>changes\<close>; its members \<open>line\<close> and \<open>type\<close> are prefixed.\<close>

record Change =
  change_line :: number
  description :: string
  change_type :: ChangeType

text \<open>
  The interface \<open>OptimizationResult\<close>. Its optional members \<open>id?: string\<close> and
  \<open>name?: string\<close> are the fields \<open>id_opt\<close> and \<open>name_opt\<close>; \<open>None\<close> is the
  missing member (\<open>undefined\<close>).
\<close>

record OptimizationResult =
  originalCode :: string
  optimizedCode :: string
  explanation :: string
  metrics :: CodeMetrics
  changes :: "Change list"
  level :: OptimizationLevel
  timestamp :: number
  id_opt :: "string option"
  name_opt :: "string option"

section \<open>The browser's localStorage, as mockStorage.ts uses it\<close>

text \<open>
  A key of localStorage holds a string or nothing (\<open>getItem\<close> returns \<open>null\<close>).
  The strings are told apart as far as the code can: the empty string (falsy in a
  conditional), a text that \<open>JSON.parse\<close> rejects, and the text that
  \<open>JSON.stringify\<close> wrote for a value, which \<open>JSON.parse\<close> reads back as that value.
  Valid JSON of another shape than the declared type is outside the model, as it is outside
  the TypeScript types. \<open>setItem\<close> always succeeds: the quota is not modelled.
\<close>

datatype 'a stored = EmptyText | NotJson | Json 'a

datatype error = SyntaxError

fun JSON_parse :: "'a stored \<Rightarrow> error + 'a" where
  "JSON_parse EmptyText = Inl SyntaxError"
| "JSON_parse NotJson = Inl SyntaxError"
| "JSON_parse (Json v) = Inr v"

definition JSON_stringify :: "'a \<Rightarrow> 'a stored" where
  "JSON_stringify v = Json v"

text \<open>
  The two keys \<open>HISTORY_STORAGE_KEY = 'opticode_projects_history'\<close> and
  \<open>SAVED_SNIPPETS_KEY = 'opticode_saved_snippets'\<close>, the only ones \<open>mockDb\<close> touches.
\<close>

record localStorage =
  HISTORY_STORAGE_KEY :: "OptimizationResult list stored option"
  SAVED_SNIPPETS_KEY :: "OptimizationResult list stored option"

text \<open>
  An operation of \<open>mockDb\<close> runs on the storage and either returns or throws; what it
  wrote before throwing stays written, so the storage is returned in both cases.
\<close>

type_synonym 'a result = "(error + 'a) \<times> localStorage"

text \<open>\<open>rawData ? JSON.parse(rawData) : []\<close>\<close>

definition parse_or_empty :: "'a list stored option \<Rightarrow> error + 'a list" where
  "parse_or_empty rawData =
     (case rawData of
        None \<Rightarrow> Inr []
      | Some raw \<Rightarrow> if raw = EmptyText then Inr [] else JSON_parse raw)"

definition getHistory :: "localStorage \<Rightarrow> error + OptimizationResult list" where
  "getHistory st = parse_or_empty (HISTORY_STORAGE_KEY st)"

definition getSavedSnippets :: "localStorage \<Rightarrow> error + OptimizationResult list" where
  "getSavedSnippets st = parse_or_empty (SAVED_SNIPPETS_KEY st)"

text \<open>
  \<open>a || b\<close> on a value of type \<open>string | undefined\<close>: the missing value and the
  empty string are falsy.
\<close>

definition or_else :: "string option \<Rightarrow> string \<Rightarrow> string" where
  "or_else a b = (case a of None \<Rightarrow> b | Some s \<Rightarrow> if s = [] then b else s)"

text \<open>
  \<open>mockDb.saveToHistory\<close>. The argument \<open>token\<close> is what
  \<open>Math.random().toString(36).substring(2, 9)\<close> yields in this call.
\<close>

definition saveToHistory ::
  "string \<Rightarrow> OptimizationResult \<Rightarrow> localStorage \<Rightarrow> OptimizationResult result" where
  "saveToHistory token data st =
     (case getHistory st of
        Inl e \<Rightarrow> (Inl e, st)
      | Inr history \<Rightarrow>
          let ident = or_else (id_opt data) token;
              name = or_else (name_opt data) (''Session-'' @ ident);
              itemWithId = data\<lparr>id_opt := Some ident, name_opt := Some name\<rparr>;
              newHistory = itemWithId # history
          in (Inr itemWithId,
              st\<lparr>HISTORY_STORAGE_KEY := Some (JSON_stringify newHistory)\<rparr>))"

text \<open>\<open>item.id === id ? { ...item, name: newName } : item\<close>\<close>

definition rename_item :: "string \<Rightarrow> string \<Rightarrow> OptimizationResult \<Rightarrow> OptimizationResult" where
  "rename_item i newName item =
     (if id_opt item = Some i then item\<lparr>name_opt := Some newName\<rparr> else item)"

text \<open>
  \<open>mockDb.updateProjectName\<close>: the history is read, mapped and written before the
  library is read.
\<close>

definition updateProjectName :: "string \<Rightarrow> string \<Rightarrow> localStorage \<Rightarrow> unit result" where
  "updateProjectName i newName st =
     (case getHistory st of
        Inl e \<Rightarrow> (Inl e, st)
      | Inr history \<Rightarrow>
          let updatedHistory = map (rename_item i newName) history;
              st1 = st\<lparr>HISTORY_STORAGE_KEY := Some (JSON_stringify updatedHistory)\<rparr>
          in (case getSavedSnippets st1 of
                Inl e \<Rightarrow> (Inl e, st1)
              | Inr saved \<Rightarrow>
                  let updatedSaved = map (rename_item i newName) saved
                  in (Inr (),
                      st1\<lparr>SAVED_SNIPPETS_KEY := Some (JSON_stringify updatedSaved)\<rparr>)))"

text \<open>
  \<open>mockDb.saveToProfile\<close>: \<open>saved.find(item => item.id === data.id)\<close> yields a
  record (truthy) or \<open>undefined\<close>; two missing ids are equal under \<open>===\<close>.
\<close>

definition saveToProfile :: "OptimizationResult \<Rightarrow> localStorage \<Rightarrow> unit result" where
  "saveToProfile data st =
     (case getSavedSnippets st of
        Inl e \<Rightarrow> (Inl e, st)
      | Inr saved \<Rightarrow>
          (case find (\<lambda>item. id_opt item = id_opt data) saved of
             Some found \<Rightarrow> (Inr (), st)
           | None \<Rightarrow>
               let newSaved = data # saved
               in (Inr (), st\<lparr>SAVED_SNIPPETS_KEY := Some (JSON_stringify newSaved)\<rparr>)))"

text \<open>\<open>mockDb.deleteSnippet\<close>: the library first, then the history.\<close>

definition deleteSnippet :: "string \<Rightarrow> localStorage \<Rightarrow> unit result" where
  "deleteSnippet i st =
     (case getSavedSnippets st of
        Inl e \<Rightarrow> (Inl e, st)
      | Inr saved \<Rightarrow>
          let filtered = filter (\<lambda>item. id_opt item \<noteq> Some i) saved;
              st1 = st\<lparr>SAVED_SNIPPETS_KEY := Some (JSON_stringify filtered)\<rparr>
          in (case getHistory st1 of
                Inl e \<Rightarrow> (Inl e, st1)
              | Inr history \<Rightarrow>
                  let filteredHistory = filter (\<lambda>item. id_opt item \<noteq> Some i) history
                  in (Inr (),
                      st1\<lparr>HISTORY_STORAGE_KEY := Some (JSON_stringify filteredHistory)\<rparr>)))"

text \<open>
  \<open>new Map(entries)\<close> inserts the entries in order, a later entry replacing an earlier
  one with the same key.
\<close>

definition Map_set :: "('k \<rightharpoonup> 'v) \<Rightarrow> 'k \<times> 'v \<Rightarrow> ('k \<rightharpoonup> 'v)" where
  "Map_set m entry = m(fst entry \<mapsto> snd entry)"

definition new_Map :: "('k \<times> 'v) list \<Rightarrow> ('k \<rightharpoonup> 'v)" where
  "new_Map entries = foldl Map_set Map.empty entries"

text \<open>
  \<open>mockDb.getById\<close>. The keys of the map are the \<open>id\<close> members, missing ones
  included; the lookup is by a string.
\<close>

definition getById :: "string \<Rightarrow> localStorage \<Rightarrow> OptimizationResult option result" where
  "getById i st =
     (case getHistory st of
        Inl e \<Rightarrow> (Inl e, st)
      | Inr history \<Rightarrow>
          (case getSavedSnippets st of
             Inl e \<Rightarrow> (Inl e, st)
           | Inr saved \<Rightarrow>
               let allItems = history @ saved;
                   uniqueMap = new_Map (map (\<lambda>item. (id_opt item, item)) allItems)
               in (Inr (uniqueMap (Some i)), st)))"

text \<open>
  The states of the store. Nothing but \<open>mockDb\<close> writes the two keys, and it writes
  them in \<open>saveToHistory\<close>, \<open>updateProjectName\<close>, \<open>saveToProfile\<close> and
  \<open>deleteSnippet\<close> only: a state of the store is the storage of a browser that has
  neither key yet, or what one of the four leaves behind on a state of the store.
\<close>

definition empty_store :: localStorage where
  "empty_store = \<lparr>HISTORY_STORAGE_KEY = None, SAVED_SNIPPETS_KEY = None\<rparr>"

inductive reachable :: "localStorage \<Rightarrow> bool" where
  init: "reachable empty_store"
| history: "reachable st \<Longrightarrow> reachable (snd (saveToHistory token data st))"
| rename: "reachable st \<Longrightarrow> reachable (snd (updateProjectName i newName st))"
| profile: "reachable st \<Longrightarrow> reachable (snd (saveToProfile data st))"
| delete: "reachable st \<Longrightarrow> reachable (snd (deleteSnippet i st))"

section \<open>The optimizer page (OptimizePage.tsx): pipeline result and derived booleans\<close>

text \<open>
  The analysis documents (\<open>Record<string, any>\<close>) are only copied and tested for
  presence.
\<close>

type_synonym analysis = "(string \<times> number) list"

record LanguageCheck =
  is_python :: bool
  reason :: string

record Finding =
  finding_type :: string
  finding_line :: number
  suggestion :: string

text \<open>
  The member \<open>error_report\<close>; every member of it is optional,
  \<open>optimization?: { findings: [...] }\<close> is the list of its findings, and \<open>syntax\<close> is
  the field \<open>syntax_report\<close>.
\<close>

record ErrorReport =
  language :: "LanguageCheck option"
  syntax_report :: "string option"
  security :: "string list option"
  runtime_risks :: "string list option"
  optimization :: "Finding list option"

record RankedModel =
  model :: string
  model_score :: number
  model_confidence :: number
  model_risk :: string
  syntax_ok :: bool
  latency_ms :: number

record L2 =
  winning_model :: string
  score :: number
  confidence :: number
  risk :: string
  changes_applied :: "string list"
  additional_suggestions :: "string list"
  ranked_models :: "RankedModel list"
  syntax_valid :: bool

text \<open>
  The interface \<open>PipelineResult\<close>; its member \<open>error: string | null\<close> is the field
  \<open>error_message\<close>.
\<close>

record PipelineResult =
  passed_error_check :: bool
  passed_complexity :: bool
  optimization_ran :: bool
  error_report :: ErrorReport
  original_analysis :: analysis
  optimized_analysis :: analysis
  original_code :: string
  optimized_code :: string
  optimization_level :: string
  l1_changes :: "string list"
  l2 :: L2
  error_message :: "string option"

definition NO_CHANGE_SENTINEL :: string where
  "NO_CHANGE_SENTINEL = ''no rule-based optimizations applicable''"

text \<open>
  \<open>String.prototype.toLowerCase\<close> on the ASCII letters; the other characters are
  left as they are, which is what JavaScript does on ASCII text.
\<close>

definition toLowerCase_char :: "char \<Rightarrow> char" where
  "toLowerCase_char c =
     (let n = (of_char c :: nat) in if 65 \<le> n \<and> n \<le> 90 then char_of (n + 32) else c)"

definition toLowerCase :: "string \<Rightarrow> string" where
  "toLowerCase s = map toLowerCase_char s"

text \<open>\<open>s.includes(t)\<close>: \<open>t\<close> occurs in \<open>s\<close> as a contiguous run.\<close>

fun includes_str :: "string \<Rightarrow> string \<Rightarrow> bool" where
  "includes_str [] t = (t = [])"
| "includes_str (c # s) t = (take (length t) (c # s) = t \<or> includes_str s t)"

definition hasRealL1Changes :: "string list \<Rightarrow> bool" where
  "hasRealL1Changes changes' =
     (if length changes' = 0 then False
      else \<not> list_all (\<lambda>c. includes_str (toLowerCase c) NO_CHANGE_SENTINEL) changes')"

definition hasRealL2 :: "L2 \<Rightarrow> bool" where
  "hasRealL2 l = (winning_model l \<noteq> [] \<and> length (changes_applied l) > 0)"

text \<open>\<open>(xs?.length ?? 0) > 0\<close> on an optional list.\<close>

definition nonempty_opt :: "'a list option \<Rightarrow> bool" where
  "nonempty_opt xs = (case xs of None \<Rightarrow> False | Some ys \<Rightarrow> length ys > 0)"

text \<open>
  The derived booleans of the component, computed from its state \<open>result\<close>
  (\<open>null\<close> before the first run).
\<close>

record Derived =
  hasSecurityIssues :: bool
  hasRuntimeRisks :: bool
  realL1Changes :: bool
  alreadyOptimal :: bool
  realL2 :: bool
  hasFindings :: bool
  hasAnyExplanation :: bool

definition derived_booleans :: "PipelineResult option \<Rightarrow> Derived" where
  "derived_booleans result =
     (let hasSecurityIssues' =
            (case result of None \<Rightarrow> False | Some r \<Rightarrow> nonempty_opt (security (error_report r)));
          hasRuntimeRisks' =
            (case result of None \<Rightarrow> False | Some r \<Rightarrow> nonempty_opt (runtime_risks (error_report r)));
          realL1Changes' =
            (case result of None \<Rightarrow> False | Some r \<Rightarrow> hasRealL1Changes (l1_changes r));
          alreadyOptimal' =
            (case result of None \<Rightarrow> False
             | Some r \<Rightarrow> length (l1_changes r) \<noteq> 0 \<and> \<not> realL1Changes');
          realL2' = (case result of None \<Rightarrow> False | Some r \<Rightarrow> hasRealL2 (l2 r));
          hasFindings' =
            (case result of None \<Rightarrow> False | Some r \<Rightarrow> nonempty_opt (optimization (error_report r)));
          hasAnyExplanation' = (realL1Changes' \<or> realL2' \<or> hasFindings' \<or> alreadyOptimal')
      in \<lparr>hasSecurityIssues = hasSecurityIssues', hasRuntimeRisks = hasRuntimeRisks',
          realL1Changes = realL1Changes', alreadyOptimal = alreadyOptimal',
          realL2 = realL2', hasFindings = hasFindings',
          hasAnyExplanation = hasAnyExplanation'\<rparr>)"

section \<open>The optimizer page: loading a session from the URL\<close>

text \<open>
  The object parsed from the slot \<open>'opticode_open_session'\<close>, as far as the effect
  reads it. Every member may be missing; a missing member and a falsy one take the same
  branch of each \<open>||\<close>, which \<open>None\<close> stands for in the members that are objects or
  lists.
\<close>

record Session =
  session_id :: "string option"
  session_name :: "string option"
  session_original_code :: "string option"
  session_optimized_code :: "string option"
  session_original_analysis :: "analysis option"
  session_optimized_analysis :: "analysis option"
  session_error_report :: "ErrorReport option"
  session_optimization_level :: "string option"
  session_l1_changes :: "string list option"
  session_l2 :: "L2 option"

text \<open>The state of the component that the effect sets.\<close>

record PageState =
  userCode :: string
  result :: "PipelineResult option"
  projectName :: string
  tempName :: string
  savedSessionId :: "string option"








section \<open>Fixtures of the worked examples\<close>

definition sample :: "string option \<Rightarrow> string option \<Rightarrow> OptimizationResult" where
  "sample i n =
     \<lparr>originalCode = ''x = 1'', optimizedCode = ''x = 1'', explanation = [],
      metrics = \<lparr>cyclomaticComplexity = 1, linesOfCode = 1, maintainabilityIndex = 100,
                 estimatedSpeedup = ''1x''\<rparr>,
      changes = [], level = LEVEL_1, timestamp = 0, id_opt = i, name_opt = n\<rparr>"

definition store0 :: localStorage where
  "store0 =
     \<lparr>HISTORY_STORAGE_KEY =
        Some (Json [sample (Some ''a'') (Some ''old''), sample (Some ''b'') (Some ''keep'')]),
      SAVED_SNIPPETS_KEY = Some (Json [sample (Some ''a'') (Some ''old'')])\<rparr>"

definition diverged_store :: localStorage where
  "diverged_store =
     \<lparr>HISTORY_STORAGE_KEY = Some (Json [sample (Some ''a'') (Some ''history copy'')]),
      SAVED_SNIPPETS_KEY = Some (Json [sample (Some ''a'') (Some ''library copy'')])\<rparr>"



section \<open>Facts about the storage and the fixtures\<close>

lemma getHistory_upd [simp]:
  "getHistory (st\<lparr>HISTORY_STORAGE_KEY := Some (JSON_stringify xs)\<rparr>) = Inr xs"
  "getHistory (st\<lparr>SAVED_SNIPPETS_KEY := v\<rparr>) = getHistory st"
  by (simp_all add: getHistory_def parse_or_empty_def JSON_stringify_def)

lemma getSavedSnippets_upd [simp]:
  "getSavedSnippets (st\<lparr>SAVED_SNIPPETS_KEY := Some (JSON_stringify xs)\<rparr>) = Inr xs"
  "getSavedSnippets (st\<lparr>HISTORY_STORAGE_KEY := v\<rparr>) = getSavedSnippets st"
  by (simp_all add: getSavedSnippets_def parse_or_empty_def JSON_stringify_def)

lemma read_store0:
  "getHistory store0 = Inr [sample (Some ''a'') (Some ''old''), sample (Some ''b'') (Some ''keep'')]"
  "getSavedSnippets store0 = Inr [sample (Some ''a'') (Some ''old'')]"
  by (simp_all add: store0_def getHistory_def getSavedSnippets_def parse_or_empty_def)

lemma read_empty_store:
  "getHistory empty_store = Inr []" "getSavedSnippets empty_store = Inr []"
  by (simp_all add: empty_store_def getHistory_def getSavedSnippets_def parse_or_empty_def)

lemma read_diverged_store:
  "getHistory diverged_store = Inr [sample (Some ''a'') (Some ''history copy'')]"
  "getSavedSnippets diverged_store = Inr [sample (Some ''a'') (Some ''library copy'')]"
  by (simp_all add: diverged_store_def getHistory_def getSavedSnippets_def parse_or_empty_def)

lemma sample_sel [simp]: "id_opt (sample i n) = i" "name_opt (sample i n) = n"
  by (simp_all add: sample_def)

lemma sample_upd [simp]: "(sample i n)\<lparr>name_opt := m\<rparr> = sample i m"
  "(sample i n)\<lparr>id_opt := j\<rparr> = sample j n"
  by (simp_all add: sample_def)

lemma sample_eq [simp]: "(sample i n = sample j m) = (i = j \<and> n = m)"
  by (auto simp: sample_def)

section \<open>The operations on a storage whose collections can be read\<close>

lemma saveToHistory_eq:
  assumes "getHistory st = Inr hs"
  shows "\<exists>item. saveToHistory token d st =
    (Inr item, st\<lparr>HISTORY_STORAGE_KEY := Some (JSON_stringify (item # hs))\<rparr>)"
  using assms by (simp add: saveToHistory_def Let_def)

lemma updateProjectName_eq:
  assumes "getHistory st = Inr hs" and "getSavedSnippets st = Inr ls"
  shows "updateProjectName i x st =
    (Inr (), st\<lparr>HISTORY_STORAGE_KEY := Some (JSON_stringify (map (rename_item i x) hs)),
               SAVED_SNIPPETS_KEY := Some (JSON_stringify (map (rename_item i x) ls))\<rparr>)"
  using assms by (simp add: updateProjectName_def Let_def)

lemma case_find:
  "(case find P xs of None \<Rightarrow> b | Some found \<Rightarrow> a) = (if \<exists>x \<in> set xs. P x then a else b)"
  by (induction xs) simp_all

lemma saveToProfile_eq:
  assumes "getSavedSnippets st = Inr ls"
  shows "saveToProfile r st =
    (Inr (), if \<exists>item \<in> set ls. id_opt item = id_opt r then st
             else st\<lparr>SAVED_SNIPPETS_KEY := Some (JSON_stringify (r # ls))\<rparr>)"
  using assms by (simp add: saveToProfile_def case_find)

lemma deleteSnippet_eq:
  assumes "getHistory st = Inr hs" and "getSavedSnippets st = Inr ls"
  shows "deleteSnippet i st =
    (Inr (), st\<lparr>SAVED_SNIPPETS_KEY := Some (JSON_stringify (filter (\<lambda>item. id_opt item \<noteq> Some i) ls)),
               HISTORY_STORAGE_KEY := Some (JSON_stringify (filter (\<lambda>item. id_opt item \<noteq> Some i) hs))\<rparr>)"
  using assms by (simp add: deleteSnippet_def Let_def)

lemma find_append: "find P (xs @ ys) = (case find P xs of Some r \<Rightarrow> Some r | None \<Rightarrow> find P ys)"
  by (induction xs) simp_all

lemma new_Map_foldl:
  "foldl Map_set m (map (\<lambda>item. (f item, item)) xs) k =
     (case find (\<lambda>item. f item = k) (rev xs) of Some r \<Rightarrow> Some r | None \<Rightarrow> m k)"
proof (induction xs arbitrary: m)
  case Nil
  show ?case by simp
next
  case (Cons x xs)
  have "foldl Map_set m (map (\<lambda>item. (f item, item)) (x # xs)) k =
        foldl Map_set (Map_set m (f x, x)) (map (\<lambda>item. (f item, item)) xs) k"
    by simp
  also have "\<dots> = (case find (\<lambda>item. f item = k) (rev xs) of
                      Some r \<Rightarrow> Some r | None \<Rightarrow> Map_set m (f x, x) k)"
    by (rule Cons.IH)
  also have "\<dots> = (case find (\<lambda>item. f item = k) (rev (x # xs)) of
                      Some r \<Rightarrow> Some r | None \<Rightarrow> m k)"
    by (simp add: find_append Map_set_def split: option.splits)
  finally show ?case .
qed

lemma new_Map_last:
  "new_Map (map (\<lambda>item. (f item, item)) xs) k = find (\<lambda>item. f item = k) (rev xs)"
  by (simp add: new_Map_def new_Map_foldl split: option.splits)

lemma getById_eq:
  assumes "getHistory st = Inr hs" and "getSavedSnippets st = Inr ls"
  shows "getById i st = (Inr (find (\<lambda>item. id_opt item = Some i) (rev (hs @ ls))), st)"
  using assms by (simp add: getById_def new_Map_last)

section \<open>Reading the collections\<close>

text \<open>
  C5, the claim as stated fails: a payload under the history key that is not valid JSON
  makes \<open>getHistory\<close> throw the parse failure instead of returning the empty sequence.
\<close>

theorem getHistory_malformed_counterexample:
  "getHistory \<lparr>HISTORY_STORAGE_KEY = Some NotJson, SAVED_SNIPPETS_KEY = None\<rparr> = Inl SyntaxError
   \<and> getHistory \<lparr>HISTORY_STORAGE_KEY = Some NotJson, SAVED_SNIPPETS_KEY = None\<rparr> \<noteq> Inr []"
  by (simp add: getHistory_def parse_or_empty_def)

text \<open>
  C5, amended: an absent payload, and an empty one, under the history key or the library
  key reads as the empty sequence; a payload written by the store reads as the collection
  written; a payload that is not valid JSON makes the read throw, in \<open>getHistory\<close> and in
  \<open>getSavedSnippets\<close> alike.
\<close>

theorem read_collections:
  "getHistory (st\<lparr>HISTORY_STORAGE_KEY := None\<rparr>) = Inr []
   \<and> getSavedSnippets (st\<lparr>SAVED_SNIPPETS_KEY := None\<rparr>) = Inr []
   \<and> getHistory (st\<lparr>HISTORY_STORAGE_KEY := Some EmptyText\<rparr>) = Inr []
   \<and> getSavedSnippets (st\<lparr>SAVED_SNIPPETS_KEY := Some EmptyText\<rparr>) = Inr []
   \<and> getHistory (st\<lparr>HISTORY_STORAGE_KEY := Some (JSON_stringify hs)\<rparr>) = Inr hs
   \<and> getSavedSnippets (st\<lparr>SAVED_SNIPPETS_KEY := Some (JSON_stringify ls)\<rparr>) = Inr ls
   \<and> getHistory (st\<lparr>HISTORY_STORAGE_KEY := Some NotJson\<rparr>) = Inl SyntaxError
   \<and> getSavedSnippets (st\<lparr>SAVED_SNIPPETS_KEY := Some NotJson\<rparr>) = Inl SyntaxError"
  by (simp add: getHistory_def getSavedSnippets_def parse_or_empty_def JSON_stringify_def)

section \<open>Renaming a session\<close>

lemma rename_item_absent:
  "Some i \<notin> id_opt ` set xs \<Longrightarrow> map (rename_item i x) xs = xs"
  by (induction xs) (auto simp: rename_item_def)

lemma rename_item_all2:
  "list_all2 (\<lambda>old new. if id_opt old = Some i then new = old\<lparr>name_opt := Some x\<rparr> else new = old)
     xs (map (rename_item i x) xs)"
  by (induction xs) (auto simp: rename_item_def)

lemma rename_item_named:
  "r \<in> set (map (rename_item i x) xs) \<Longrightarrow> id_opt r = Some i \<Longrightarrow> name_opt r = Some x"
  by (auto simp: rename_item_def split: if_splits)

text \<open>
  C1: on every storage whose two collections can be read, \<open>updateProjectName i x\<close>
  returns without throwing; afterwards both collections hold, position by position, the
  record renamed to \<open>x\<close> where the id is \<open>i\<close> and the record itself elsewhere, so every
  record with id \<open>i\<close> in either collection has the name \<open>x\<close>; and when neither
  collection holds the id, both collections are as they were.
\<close>

theorem updateProjectName_renames:
  assumes "getHistory st = Inr hs" and "getSavedSnippets st = Inr ls"
    and "updateProjectName i x st = (res, st')"
  shows "res = Inr () \<and>
    (\<exists>hs' ls'. getHistory st' = Inr hs' \<and> getSavedSnippets st' = Inr ls'
       \<and> list_all2 (\<lambda>old new. if id_opt old = Some i then new = old\<lparr>name_opt := Some x\<rparr>
                                  else new = old) hs hs'
       \<and> list_all2 (\<lambda>old new. if id_opt old = Some i then new = old\<lparr>name_opt := Some x\<rparr>
                                  else new = old) ls ls'
       \<and> (\<forall>r \<in> set hs' \<union> set ls'. id_opt r = Some i \<longrightarrow> name_opt r = Some x)
       \<and> (Some i \<notin> id_opt ` (set hs \<union> set ls) \<longrightarrow> hs' = hs \<and> ls' = ls))"
proof -
  let ?hs' = "map (rename_item i x) hs" and ?ls' = "map (rename_item i x) ls"
  from assms have res: "res = Inr ()"
    and st': "st' = st\<lparr>HISTORY_STORAGE_KEY := Some (JSON_stringify ?hs'),
               SAVED_SNIPPETS_KEY := Some (JSON_stringify ?ls')\<rparr>"
    by (simp_all add: updateProjectName_eq)
  have rd: "getHistory st' = Inr ?hs'" "getSavedSnippets st' = Inr ?ls'"
    by (simp_all add: st')
  have named: "\<forall>r \<in> set ?hs' \<union> set ?ls'. id_opt r = Some i \<longrightarrow> name_opt r = Some x"
    using rename_item_named by blast
  have absent: "Some i \<notin> id_opt ` (set hs \<union> set ls) \<longrightarrow> ?hs' = hs \<and> ?ls' = ls"
    by (simp add: rename_item_absent image_Un)
  from res rd named absent rename_item_all2 [of i x hs] rename_item_all2 [of i x ls]
  show ?thesis by blast
qed

text \<open>
  C1, at a concrete store: \<open>a\<close> is in the history and in the library, \<open>b\<close> in the
  history only.
\<close>

theorem updateProjectName_renames_witness:
  "fst (updateProjectName ''a'' ''X'' store0) = Inr ()
   \<and> getHistory (snd (updateProjectName ''a'' ''X'' store0)) =
       Inr [sample (Some ''a'') (Some ''X''), sample (Some ''b'') (Some ''keep'')]
   \<and> getSavedSnippets (snd (updateProjectName ''a'' ''X'' store0)) =
       Inr [sample (Some ''a'') (Some ''X'')]"
proof -
  have u: "updateProjectName ''a'' ''X'' store0 =
      (fst (updateProjectName ''a'' ''X'' store0), snd (updateProjectName ''a'' ''X'' store0))"
    by simp
  from updateProjectName_renames [OF read_store0 u]
  show ?thesis by (auto simp: list_all2_Cons1)
qed

section \<open>Saving to the library\<close>

text \<open>
  No operation of the store puts a second record with an id already there into the
  library: in every state of the store both collections can be read and the ids of the
  library are distinct, so an id occurs there at most once.
\<close>

lemma distinct_ids_once:
  "distinct (map f xs) \<Longrightarrow> length (filter (\<lambda>item. f item = k) xs) \<le> 1"
proof (induction xs)
  case Nil
  show ?case by simp
next
  case (Cons a xs)
  show ?case
  proof (cases "f a = k")
    case True
    with Cons.prems have "k \<notin> f ` set xs" by simp
    then have "filter (\<lambda>item. f item = k) xs = []"
      by (auto simp: filter_empty_conv)
    with True show ?thesis by simp
  next
    case False
    with Cons show ?thesis by simp
  qed
qed

lemma rename_keeps_ids: "map (id_opt \<circ> rename_item i x) xs = map id_opt xs"
  by (induction xs) (simp_all add: rename_item_def)

lemma reachable_inv:
  "reachable st \<Longrightarrow>
     \<exists>hs ls. getHistory st = Inr hs \<and> getSavedSnippets st = Inr ls \<and> distinct (map id_opt ls)"
proof (induction rule: reachable.induct)
  case init
  show ?case by (simp add: read_empty_store)
next
  case (history st token data)
  then obtain hs ls where r: "getHistory st = Inr hs" "getSavedSnippets st = Inr ls"
    and d: "distinct (map id_opt ls)" by blast
  from saveToHistory_eq [OF r(1), of token data] obtain item where
    "saveToHistory token data st =
       (Inr item, st\<lparr>HISTORY_STORAGE_KEY := Some (JSON_stringify (item # hs))\<rparr>)" ..
  with r d show ?case by simp
next
  case (rename st i newName)
  then obtain hs ls where r: "getHistory st = Inr hs" "getSavedSnippets st = Inr ls"
    and d: "distinct (map id_opt ls)" by blast
  from d show ?case by (simp add: updateProjectName_eq [OF r] rename_keeps_ids)
next
  case (profile st data)
  then obtain hs ls where r: "getHistory st = Inr hs" "getSavedSnippets st = Inr ls"
    and d: "distinct (map id_opt ls)" by blast
  show ?case
  proof (cases "\<exists>item \<in> set ls. id_opt item = id_opt data")
    case True
    with r d show ?thesis by (simp add: saveToProfile_eq [OF r(2)])
  next
    case False
    then have "id_opt data \<notin> id_opt ` set ls" by force
    with False r d show ?thesis by (simp add: saveToProfile_eq [OF r(2)])
  qed
next
  case (delete st i)
  then obtain hs ls where r: "getHistory st = Inr hs" "getSavedSnippets st = Inr ls"
    and d: "distinct (map id_opt ls)" by blast
  from d show ?case by (simp add: deleteSnippet_eq [OF r] distinct_map_filter)
qed

text \<open>
  Two calls of \<open>saveToProfile\<close> on any storage whose library can be read: both return,
  the second changes nothing, and an id that was there at most once is there once.
\<close>

lemma saveToProfile_twice:
  assumes "getSavedSnippets st = Inr ls"
    and "saveToProfile r st = (res1, st1)"
    and "saveToProfile r st1 = (res2, st2)"
  shows "res1 = Inr () \<and> res2 = Inr () \<and> st2 = st1 \<and>
    (\<exists>ls1. getSavedSnippets st1 = Inr ls1
       \<and> (length (filter (\<lambda>item. id_opt item = id_opt r) ls) \<le> 1
            \<longrightarrow> length (filter (\<lambda>item. id_opt item = id_opt r) ls1) = 1))"
proof (cases "\<exists>item \<in> set ls. id_opt item = id_opt r")
  case True
  with assms(1,2) have 1: "res1 = Inr ()" "st1 = st"
    by (simp_all add: saveToProfile_eq)
  with assms(1,3) True have 2: "res2 = Inr ()" "st2 = st1"
    by (simp_all add: saveToProfile_eq)
  from True have "filter (\<lambda>item. id_opt item = id_opt r) ls \<noteq> []"
    by (simp add: filter_empty_conv)
  then have "length (filter (\<lambda>item. id_opt item = id_opt r) ls) \<ge> 1"
    by (cases "filter (\<lambda>item. id_opt item = id_opt r) ls") simp_all
  then have 3: "length (filter (\<lambda>item. id_opt item = id_opt r) ls) \<le> 1
      \<longrightarrow> length (filter (\<lambda>item. id_opt item = id_opt r) ls) = 1"
    by arith
  from assms(1) 1(2) have 4: "getSavedSnippets st1 = Inr ls" by simp
  show ?thesis
    by (intro conjI exI [of _ ls]) (rule 1 2 3 4)+
next
  case False
  with assms(1,2) have 1: "res1 = Inr ()"
    "st1 = st\<lparr>SAVED_SNIPPETS_KEY := Some (JSON_stringify (r # ls))\<rparr>"
    by (simp_all add: saveToProfile_eq)
  then have rd: "getSavedSnippets st1 = Inr (r # ls)" by simp
  with assms(3) have 2: "res2 = Inr ()" "st2 = st1"
    by (simp_all add: saveToProfile_eq [OF rd])
  from False have "filter (\<lambda>item. id_opt item = id_opt r) ls = []"
    by (simp add: filter_empty_conv)
  then have 3: "length (filter (\<lambda>item. id_opt item = id_opt r) ls) \<le> 1
      \<longrightarrow> length (filter (\<lambda>item. id_opt item = id_opt r) (r # ls)) = 1" by simp
  show ?thesis
    by (intro conjI exI [of _ "r # ls"]) (rule 1(1) 2 3 rd)+
qed

text \<open>
  C2: for every record \<open>r\<close> and every state of the store, two calls of
  \<open>saveToProfile r\<close> both return, the second changes nothing in the storage (no second
  insert), and the library then holds exactly one entry with the id of \<open>r\<close>.
\<close>

theorem saveToProfile_idempotent:
  assumes "reachable st"
    and "saveToProfile r st = (res1, st1)"
    and "saveToProfile r st1 = (res2, st2)"
  shows "res1 = Inr () \<and> res2 = Inr () \<and> st2 = st1 \<and>
    (\<exists>ls1. getSavedSnippets st1 = Inr ls1
       \<and> length (filter (\<lambda>item. id_opt item = id_opt r) ls1) = 1)"
proof -
  from reachable_inv [OF assms(1)] obtain ls where
    l: "getSavedSnippets st = Inr ls" and d: "distinct (map id_opt ls)" by blast
  from d have "length (filter (\<lambda>item. id_opt item = id_opt r) ls) \<le> 1"
    by (rule distinct_ids_once)
  with saveToProfile_twice [OF l assms(2,3)] show ?thesis by blast
qed

text \<open>
  C2, at the state of the store that holds \<open>b\<close> in the library: saving \<open>a\<close> twice
  leaves \<open>a\<close> once, before \<open>b\<close>.
\<close>

theorem saveToProfile_idempotent_witness:
  "reachable (snd (saveToProfile (sample (Some ''b'') None) empty_store))
   \<and> saveToProfile (sample (Some ''a'') None)
        (snd (saveToProfile (sample (Some ''a'') None)
           (snd (saveToProfile (sample (Some ''b'') None) empty_store)))) =
      (Inr (), snd (saveToProfile (sample (Some ''a'') None)
           (snd (saveToProfile (sample (Some ''b'') None) empty_store))))
   \<and> getSavedSnippets (snd (saveToProfile (sample (Some ''a'') None)
           (snd (saveToProfile (sample (Some ''b'') None) empty_store)))) =
      Inr [sample (Some ''a'') None, sample (Some ''b'') None]"
proof -
  let ?r = "sample (Some ''a'') None"
  let ?st = "snd (saveToProfile (sample (Some ''b'') None) empty_store)"
  let ?st1 = "snd (saveToProfile ?r ?st)"
  have st: "reachable ?st" by (rule reachable.profile) (rule reachable.init)
  have rd: "getSavedSnippets ?st = Inr [sample (Some ''b'') None]"
    by (simp add: saveToProfile_eq [OF read_empty_store(2)])
  have rd1: "getSavedSnippets ?st1 = Inr [?r, sample (Some ''b'') None]"
    by (simp add: saveToProfile_eq [OF rd])
  have 1: "saveToProfile ?r ?st = (fst (saveToProfile ?r ?st), ?st1)"
    by simp
  have 2: "saveToProfile ?r ?st1 = (fst (saveToProfile ?r ?st1), snd (saveToProfile ?r ?st1))"
    by simp
  from saveToProfile_idempotent [OF st 1 2]
  have "fst (saveToProfile ?r ?st1) = Inr ()" and "snd (saveToProfile ?r ?st1) = ?st1"
    by blast+
  then have "saveToProfile ?r ?st1 = (Inr (), ?st1)"
    by (simp add: prod_eq_iff)
  with st rd1 show ?thesis by blast
qed

section \<open>Looking a session up\<close>

lemma find_last_None:
  "(find (\<lambda>item. f item = k) xs = None) = (k \<notin> f ` set xs)"
  by (induction xs) auto

lemma find_Some_in: "find P xs = Some r \<Longrightarrow> P r \<and> r \<in> set xs"
  by (induction xs) (auto split: if_splits)

text \<open>
  C3, the claim as stated fails: when the history and the library both hold a record with
  the id and the two differ, \<open>getById\<close> returns the library's copy, not the history's.
\<close>

theorem getById_history_wins_counterexample:
  "getById ''a'' diverged_store = (Inr (Some (sample (Some ''a'') (Some ''library copy''))), diverged_store)
   \<and> sample (Some ''a'') (Some ''library copy'') \<noteq> sample (Some ''a'') (Some ''history copy'')
   \<and> getHistory diverged_store = Inr [sample (Some ''a'') (Some ''history copy'')]"
  by (simp add: getById_eq [OF read_diverged_store] read_diverged_store)

text \<open>
  C3, amended: \<open>getById\<close> returns one record or none: none exactly when neither
  collection holds the id; otherwise a record of the history or the library with that id,
  and the library's copy (its last record with the id) whenever the library holds one, the
  history's last record with the id otherwise.
\<close>

theorem getById_library_wins:
  assumes "getHistory st = Inr hs" and "getSavedSnippets st = Inr ls"
  shows "\<exists>res. getById i st = (Inr res, st)
     \<and> (res = None) = (Some i \<notin> id_opt ` (set hs \<union> set ls))
     \<and> (\<forall>r. res = Some r \<longrightarrow> id_opt r = Some i \<and> r \<in> set hs \<union> set ls)
     \<and> (Some i \<in> id_opt ` set ls \<longrightarrow> res = find (\<lambda>item. id_opt item = Some i) (rev ls))
     \<and> (Some i \<notin> id_opt ` set ls \<longrightarrow> res = find (\<lambda>item. id_opt item = Some i) (rev hs))"
proof -
  let ?P = "\<lambda>item. id_opt item = Some i"
  let ?res = "find ?P (rev (hs @ ls))"
  have 1: "getById i st = (Inr ?res, st)"
    using assms by (rule getById_eq)
  have 2: "(?res = None) = (Some i \<notin> id_opt ` (set hs \<union> set ls))"
    by (simp add: find_last_None Un_commute)
  have 3: "\<forall>r. ?res = Some r \<longrightarrow> id_opt r = Some i \<and> r \<in> set hs \<union> set ls"
    using find_Some_in [of ?P "rev (hs @ ls)"] by auto
  have lib_first: "?res = (case find ?P (rev ls) of Some r \<Rightarrow> Some r | None \<Rightarrow> find ?P (rev hs))"
    by (simp add: find_append)
  have 4: "Some i \<in> id_opt ` set ls \<longrightarrow> ?res = find ?P (rev ls)"
  proof
    assume "Some i \<in> id_opt ` set ls"
    then have "find ?P (rev ls) \<noteq> None"
      by (simp add: find_last_None)
    then show "?res = find ?P (rev ls)"
      by (auto simp: find_append)
  qed
  have 5: "Some i \<notin> id_opt ` set ls \<longrightarrow> ?res = find ?P (rev hs)"
  proof
    assume "Some i \<notin> id_opt ` set ls"
    then have "find ?P (rev ls) = None"
      by (simp add: find_last_None)
    then show "?res = find ?P (rev hs)"
      by (simp add: find_append)
  qed
  show ?thesis
    by (intro exI [of _ ?res] conjI) (rule 1 2 3 4 5)+
qed

text \<open>C3, amended, at a concrete store, for an id that is there and one that is not.\<close>

theorem getById_library_wins_witness:
  "getById ''a'' store0 = (Inr (Some (sample (Some ''a'') (Some ''old''))), store0)
   \<and> getById ''zz'' store0 = (Inr None, store0)"
proof -
  from getById_library_wins [OF read_store0, of "''a''"]
  have a: "getById ''a'' store0 = (Inr (Some (sample (Some ''a'') (Some ''old''))), store0)"
    by auto
  from getById_library_wins [OF read_store0, of "''zz''"]
  have z: "getById ''zz'' store0 = (Inr None, store0)"
    by auto
  from a z show ?thesis by simp
qed

section \<open>Deleting a session\<close>

lemma filter_absent:
  "Some i \<notin> id_opt ` set xs \<Longrightarrow> filter (\<lambda>item. id_opt item \<noteq> Some i) xs = xs"
  by (induction xs) auto

text \<open>
  C4: on every storage whose two collections can be read, \<open>deleteSnippet i\<close> returns
  without throwing; afterwards the id is in neither collection and \<open>getById i\<close> finds
  nothing; when the id was in neither collection, both are as they were; and deleting the
  id once more returns and leaves the storage as it is.
\<close>

theorem deleteSnippet_total:
  assumes "getHistory st = Inr hs" and "getSavedSnippets st = Inr ls"
    and "deleteSnippet i st = (res, st')"
  shows "res = Inr ()
    \<and> (\<exists>hs' ls'. getHistory st' = Inr hs' \<and> getSavedSnippets st' = Inr ls'
          \<and> Some i \<notin> id_opt ` set hs' \<and> Some i \<notin> id_opt ` set ls'
          \<and> (Some i \<notin> id_opt ` (set hs \<union> set ls) \<longrightarrow> hs' = hs \<and> ls' = ls))
    \<and> getById i st' = (Inr None, st')
    \<and> deleteSnippet i st' = (Inr (), st')"
proof -
  let ?keep = "\<lambda>item. id_opt item \<noteq> Some i"
  let ?hs' = "filter ?keep hs" and ?ls' = "filter ?keep ls"
  from assms have res: "res = Inr ()"
    and st': "st' = st\<lparr>SAVED_SNIPPETS_KEY := Some (JSON_stringify ?ls'),
                       HISTORY_STORAGE_KEY := Some (JSON_stringify ?hs')\<rparr>"
    by (simp_all add: deleteSnippet_eq)
  have rd: "getHistory st' = Inr ?hs'" "getSavedSnippets st' = Inr ?ls'"
    by (simp_all add: st')
  have gone: "Some i \<notin> id_opt ` set ?hs'" "Some i \<notin> id_opt ` set ?ls'"
    by auto
  have noop: "Some i \<notin> id_opt ` (set hs \<union> set ls) \<longrightarrow> ?hs' = hs \<and> ?ls' = ls"
    by (simp add: filter_absent image_Un)
  have "find (\<lambda>item. id_opt item = Some i) (rev (?hs' @ ?ls')) = None"
    by (auto simp: find_last_None)
  then have get: "getById i st' = (Inr None, st')"
    by (simp add: getById_eq [OF rd])
  have again: "deleteSnippet i st' = (Inr (), st')"
    by (simp add: deleteSnippet_eq [OF rd]) (simp add: st')
  show ?thesis
    by (intro conjI exI [of _ ?hs'] exI [of _ ?ls']) (rule res rd gone noop get again)+
qed

text \<open>C4, at a concrete store.\<close>

theorem deleteSnippet_total_witness:
  "fst (deleteSnippet ''a'' store0) = Inr ()
   \<and> getHistory (snd (deleteSnippet ''a'' store0)) = Inr [sample (Some ''b'') (Some ''keep'')]
   \<and> getSavedSnippets (snd (deleteSnippet ''a'' store0)) = Inr []
   \<and> getById ''a'' (snd (deleteSnippet ''a'' store0)) = (Inr None, snd (deleteSnippet ''a'' store0))"
proof -
  have d: "deleteSnippet ''a'' store0 =
      (fst (deleteSnippet ''a'' store0), snd (deleteSnippet ''a'' store0))"
    by simp
  from deleteSnippet_total [OF read_store0 d]
  have "fst (deleteSnippet ''a'' store0) = Inr ()"
    and "getById ''a'' (snd (deleteSnippet ''a'' store0)) =
          (Inr None, snd (deleteSnippet ''a'' store0))"
    by blast+
  then show ?thesis
    by (simp add: deleteSnippet_eq [OF read_store0])
qed

section \<open>Saving to the history\<close>

text \<open>
  C6, the claim as stated fails: a record whose id is there but is the empty string does
  not keep it; \<open>data.id || ...\<close> replaces it by the generated token. (And a name of
  spaces only, blank to the eye, is not falsy: it is kept, not replaced by the default.)
\<close>

theorem saveToHistory_empty_id_counterexample:
  "fst (saveToHistory ''k3x9q2a'' (sample (Some []) (Some ''n'')) empty_store) =
     Inr (sample (Some ''k3x9q2a'') (Some ''n''))
   \<and> id_opt (sample (Some ''k3x9q2a'') (Some ''n'')) \<noteq> id_opt (sample (Some []) (Some ''n''))
   \<and> fst (saveToHistory ''k3x9q2a'' (sample (Some ''a'') (Some ''  '')) empty_store) =
     Inr (sample (Some ''a'') (Some ''  ''))"
  by (simp add: saveToHistory_def read_empty_store or_else_def Let_def)

text \<open>
  C6, amended: on every storage whose history can be read, \<open>saveToHistory\<close> returns
  the finalized record: its id is the generated token when the id of the argument is
  missing or the empty string and the id of the argument otherwise; its name is
  \<open>Session-<id>\<close>, with the finalized id, when the name of the argument is missing or the
  empty string and the name of the argument otherwise; its other members are those of the
  argument; and the history afterwards is the finalized record followed by the history
  before, whatever ids that held. The library is not touched.
\<close>

theorem saveToHistory_finalizes:
  assumes "getHistory st = Inr hs" and "saveToHistory token d st = (res, st')"
  shows "\<exists>item. res = Inr item
     \<and> id_opt item = Some (case id_opt d of None \<Rightarrow> token
                                | Some i \<Rightarrow> if i = [] then token else i)
     \<and> name_opt item = Some (case name_opt d of
                                   None \<Rightarrow> ''Session-'' @ the (id_opt item)
                                 | Some n \<Rightarrow> if n = [] then ''Session-'' @ the (id_opt item) else n)
     \<and> item\<lparr>id_opt := id_opt d, name_opt := name_opt d\<rparr> = d
     \<and> getHistory st' = Inr (item # hs)
     \<and> getSavedSnippets st' = getSavedSnippets st"
  using assms
  by (auto simp: saveToHistory_def Let_def or_else_def split: option.splits)

text \<open>C6, amended, for a record with neither id nor name.\<close>

theorem saveToHistory_finalizes_witness:
  "fst (saveToHistory ''k3x9q2a'' (sample None None) store0) =
     Inr (sample (Some ''k3x9q2a'') (Some ''Session-k3x9q2a''))
   \<and> getHistory (snd (saveToHistory ''k3x9q2a'' (sample None None) store0)) =
     Inr [sample (Some ''k3x9q2a'') (Some ''Session-k3x9q2a''),
          sample (Some ''a'') (Some ''old''), sample (Some ''b'') (Some ''keep'')]"
proof -
  let ?run = "saveToHistory ''k3x9q2a'' (sample None None) store0"
  have s: "?run = (fst ?run, snd ?run)" by simp
  from saveToHistory_finalizes [OF read_store0(1) s]
  obtain item where item: "fst ?run = Inr item" "id_opt item = Some ''k3x9q2a''"
    "name_opt item = Some ''Session-k3x9q2a''"
    "item\<lparr>id_opt := None, name_opt := None\<rparr> = sample None None"
    "getHistory (snd ?run) = Inr (item # [sample (Some ''a'') (Some ''old''), sample (Some ''b'') (Some ''keep'')])"
    by auto
  from item(2,3,4) have "item = sample (Some ''k3x9q2a'') (Some ''Session-k3x9q2a'')"
    by (cases item) (auto simp: sample_def)
  with item(1,5) show ?thesis by simp
qed

section \<open>The derived booleans\<close>

lemma sentinel_is_sentinel:
  "includes_str (toLowerCase ''No rule-based optimizations applicable'') NO_CHANGE_SENTINEL"
  by code_simp

lemma real_change_is_real:
  "\<not> includes_str (toLowerCase ''Replaced manual loop with built-in sum'') NO_CHANGE_SENTINEL"
  by code_simp

lemma derived_l1:
  "realL1Changes (derived_booleans (Some r)) = hasRealL1Changes (l1_changes r)"
  "alreadyOptimal (derived_booleans (Some r)) =
     (l1_changes r \<noteq> [] \<and> \<not> hasRealL1Changes (l1_changes r))"
  "realL1Changes (derived_booleans None) = False"
  "alreadyOptimal (derived_booleans None) = False"
  by (simp_all add: derived_booleans_def Let_def)

text \<open>
  C7: for the change list holding only \<open>No rule-based optimizations applicable\<close>,
  \<open>realL1Changes\<close> is false and \<open>alreadyOptimal\<close> is true; for the change list holding
  only \<open>Replaced manual loop with built-in sum\<close>, \<open>realL1Changes\<close> is true and
  \<open>alreadyOptimal\<close> is false; and for every result, \<open>alreadyOptimal\<close> is true exactly
  when the change list is not empty and \<open>realL1Changes\<close> is false (before the first run
  there is no change list and \<open>alreadyOptimal\<close> is false).
\<close>

theorem sentinel_classification:
  "\<not> hasRealL1Changes [''No rule-based optimizations applicable'']
   \<and> \<not> realL1Changes (derived_booleans
           (Some (r\<lparr>l1_changes := [''No rule-based optimizations applicable'']\<rparr>)))
   \<and> alreadyOptimal (derived_booleans
           (Some (r\<lparr>l1_changes := [''No rule-based optimizations applicable'']\<rparr>)))
   \<and> hasRealL1Changes [''Replaced manual loop with built-in sum'']
   \<and> realL1Changes (derived_booleans
           (Some (r\<lparr>l1_changes := [''Replaced manual loop with built-in sum'']\<rparr>)))
   \<and> \<not> alreadyOptimal (derived_booleans
           (Some (r\<lparr>l1_changes := [''Replaced manual loop with built-in sum'']\<rparr>)))
   \<and> alreadyOptimal (derived_booleans (Some r)) =
        (l1_changes r \<noteq> [] \<and> \<not> realL1Changes (derived_booleans (Some r)))
   \<and> alreadyOptimal (derived_booleans None) =
        (False \<and> \<not> realL1Changes (derived_booleans None))"
proof -
  have s: "\<not> hasRealL1Changes [''No rule-based optimizations applicable'']"
    using sentinel_is_sentinel by (simp add: hasRealL1Changes_def)
  have c: "hasRealL1Changes [''Replaced manual loop with built-in sum'']"
    using real_change_is_real by (simp add: hasRealL1Changes_def)
  show ?thesis
    using s c by (simp add: derived_l1)
qed

section \<open>Loading a session from the URL\<close>







end
